theory Spec2Isabelle
  imports Main
begin

section \<open>JavaScript values used by the token code\<close>

text \<open>
  Timestamps (\<open>Date.now()\<close>, in milliseconds) and the \<open>exp\<close> claim (whole seconds since
  the epoch) are JavaScript numbers holding integers; they are modelled as \<open>int\<close>.
  An optional property (\<open>exp?: number\<close>) is an \<open>option\<close>.  JavaScript truthiness is
  written out: a number is falsy when it is absent or \<open>0\<close>, a string when it is absent
  or empty.
\<close>

definition truthy_num :: "int option \<Rightarrow> bool" where
  "truthy_num v = (case v of None \<Rightarrow> False | Some n \<Rightarrow> n \<noteq> 0)"

definition truthy_str :: "string option \<Rightarrow> bool" where
  "truthy_str v = (case v of None \<Rightarrow> False | Some s \<Rightarrow> s \<noteq> [])"

text \<open>Decimal rendering of a non-negative number inside a template literal.\<close>

definition digit_char :: "nat \<Rightarrow> char" where
  "digit_char d = char_of (48 + d)"

function string_of_nat :: "nat \<Rightarrow> string" where
  "string_of_nat n =
     (if n < 10 then [digit_char n] else string_of_nat (n div 10) @ [digit_char (n mod 10)])"
  by pat_completeness auto
termination
  by (relation "measure id") auto

text \<open>\<open>String.prototype.split\<close> on a one-character separator: always at least one part.\<close>

fun split_on :: "char \<Rightarrow> string \<Rightarrow> string list" where
  "split_on c [] = [[]]"
| "split_on c (x # xs) =
     (if x = c then [] # split_on c xs
      else (case split_on c xs of
              [] \<Rightarrow> [[x]]
            | p # ps \<Rightarrow> (x # p) # ps))"

definition startsWith :: "string \<Rightarrow> string \<Rightarrow> bool" where
  "startsWith s p = (take (length p) s = p)"

section \<open>Token utilities (\<open>lib/auth/token.utils\<close>)\<close>

datatype token_type = AccessToken | RefreshToken

record EnhancedJwtPayload =
  sub :: "string option"
  iss :: "string option"
  aud :: "string option"
  iat :: "int option"
  exp :: "int option"
  jti :: "string option"
  user_id :: "string option"
  username_claim :: "string option"
  role_claim :: "string option"
  permissions_claim :: "string list option"
  token_type :: "token_type option"

text \<open>The object \<open>{}\<close> used by \<open>getTokenInfo\<close> when decoding fails: every claim absent.\<close>

definition empty_payload :: EnhancedJwtPayload where
  "empty_payload =
     \<lparr>sub = None, iss = None, aud = None, iat = None, exp = None, jti = None,
      user_id = None, username_claim = None, role_claim = None,
      permissions_claim = None, token_type = None\<rparr>"

record TokenInfo =
  payload :: EnhancedJwtPayload
  isExpired :: bool
  willExpireSoon :: bool
  timeUntilExpiry :: int
  timeToExpiryString :: string

definition REFRESH_BUFFER_MS :: int where
  "REFRESH_BUFFER_MS = 5 * 60 * 1000"

definition MIN_VALID_TIME_MS :: int where
  "MIN_VALID_TIME_MS = 2 * 60 * 1000"

definition MAX_REFRESH_AGE_MS :: int where
  "MAX_REFRESH_AGE_MS = 7 * 24 * 60 * 60 * 1000"

text \<open>
  \<open>jwtDecode\<close> comes from the third-party package \<open>jwt-decode\<close>; the repository only
  calls it.  It is a parameter \<open>jwtDecode\<close> of every function that reaches it: the
  result is \<open>None\<close> where the library throws and \<open>Some\<close> of the decoded payload
  otherwise.
\<close>

type_synonym decoder = "string \<Rightarrow> EnhancedJwtPayload option"

text \<open>\<open>decodeToken\<close>: the \<open>try\<close> returns the payload, the \<open>catch\<close> logs and returns \<open>null\<close>.\<close>

definition decodeToken :: "decoder \<Rightarrow> string \<Rightarrow> EnhancedJwtPayload option" where
  "decodeToken jwtDecode token =
     (case jwtDecode token of Some p \<Rightarrow> Some p | None \<Rightarrow> None)"

text \<open>
  The decoder of the package \<open>jwt-decode\<close> itself, which is a dependency and not part
  of the repository.  Modelled on the package: it splits the token at the dots, takes
  the second part, base64url-decodes it and parses it as JSON; it throws when there is
  no second part, or when that part does not decode or parse.  It does not look at the
  number of parts otherwise.  \<open>parsePart\<close> stands for the decoding and parsing of the
  part (\<open>None\<close> where either throws).
\<close>

definition jwtDecode_lib :: "(string \<Rightarrow> EnhancedJwtPayload option) \<Rightarrow> decoder" where
  "jwtDecode_lib parsePart token =
     (case split_on CHR ''.'' token of
        header # part # rest \<Rightarrow> parsePart part
      | _ \<Rightarrow> None)"

definition getTokenExpiry :: "decoder \<Rightarrow> string \<Rightarrow> int option" where
  "getTokenExpiry jwtDecode token =
     (case decodeToken jwtDecode token of
        None \<Rightarrow> None
      | Some p \<Rightarrow> (if truthy_num (exp p) then Some (the (exp p) * 1000) else None))"

definition isTokenExpired :: "decoder \<Rightarrow> int \<Rightarrow> string \<Rightarrow> int \<Rightarrow> bool" where
  "isTokenExpired jwtDecode now token bufferMs =
     (let expiry = getTokenExpiry jwtDecode token in
      if \<not> truthy_num expiry then True
      else now \<ge> the expiry - bufferMs)"

definition getTokenInfo :: "decoder \<Rightarrow> int \<Rightarrow> string \<Rightarrow> TokenInfo" where
  "getTokenInfo jwtDecode now token =
     (let payload = (case decodeToken jwtDecode token of Some p \<Rightarrow> p | None \<Rightarrow> empty_payload);
          expiry = (if truthy_num (exp payload) then Some (the (exp payload) * 1000) else None);
          timeUntilExpiry = (if truthy_num expiry then max 0 (the expiry - now) else 0);
          isExpired = (\<not> truthy_num expiry \<or> now \<ge> the expiry);
          willExpireSoon = (\<not> isExpired \<and> timeUntilExpiry \<le> REFRESH_BUFFER_MS);
          minutes = timeUntilExpiry div (1000 * 60);
          hours = minutes div 60;
          days = hours div 24;
          timeToExpiryString =
            (if \<not> isExpired then
               (if days > 0 then
                  string_of_nat (nat days) @ ''d '' @ string_of_nat (nat (hours mod 24)) @ ''h ''
                    @ string_of_nat (nat (minutes mod 60)) @ ''m''
                else if hours > 0 then
                  string_of_nat (nat hours) @ ''h '' @ string_of_nat (nat (minutes mod 60)) @ ''m''
                else string_of_nat (nat minutes) @ ''m'')
             else ''Expired'')
      in \<lparr>payload = payload, isExpired = isExpired, willExpireSoon = willExpireSoon,
          timeUntilExpiry = timeUntilExpiry, timeToExpiryString = timeToExpiryString\<rparr>)"

record format_validation =
  isValid :: bool
  validation_error :: "string option"

text \<open>
  \<open>validateTokenFormat\<close>.  The \<open>try\<close> around the decoding cannot be left through its
  \<open>catch\<close>: \<open>decodeToken\<close> never throws.
\<close>

definition validateTokenFormat :: "decoder \<Rightarrow> string \<Rightarrow> format_validation" where
  "validateTokenFormat jwtDecode token =
     (if token = [] then
        \<lparr>isValid = False, validation_error = Some ''Token is required and must be a string''\<rparr>
      else if length (split_on CHR ''.'' token) \<noteq> 3 then
        \<lparr>isValid = False, validation_error = Some ''Invalid JWT format: must have 3 parts''\<rparr>
      else (case decodeToken jwtDecode token of
              None \<Rightarrow>
                \<lparr>isValid = False, validation_error = Some ''Failed to decode token payload''\<rparr>
            | Some p \<Rightarrow>
                if \<not> truthy_num (exp p) then
                  \<lparr>isValid = False,
                   validation_error = Some ''Token missing expiration claim (exp)''\<rparr>
                else \<lparr>isValid = True, validation_error = None\<rparr>))"

definition isRefreshTokenValid :: "decoder \<Rightarrow> int \<Rightarrow> string \<Rightarrow> bool" where
  "isRefreshTokenValid jwtDecode now refreshToken =
     (if refreshToken = [] then False
      else (let info = getTokenInfo jwtDecode now refreshToken in
            if isExpired info then False
            else timeUntilExpiry info \<ge> MIN_VALID_TIME_MS))"

text \<open>
  \<open>shouldRefreshToken(accessToken?: string)\<close>: the argument is \<open>None\<close> when it is not
  passed; \<open>!accessToken\<close> also holds for the empty string.
\<close>

definition shouldRefreshToken :: "decoder \<Rightarrow> int \<Rightarrow> string option \<Rightarrow> bool" where
  "shouldRefreshToken jwtDecode now accessToken =
     (if \<not> truthy_str accessToken then True
      else (let info = getTokenInfo jwtDecode now (the accessToken) in
            isExpired info \<or> willExpireSoon info))"

section \<open>Refresh wrapper (\<open>safeTokenRefresh\<close>)\<close>

text \<open>
  A thrown value is a \<open>TokenError(message, code, originalError?)\<close> or anything else (an
  \<open>Error\<close> of another class, with its message).
\<close>

datatype thrown = TokenError string string "thrown option" | OtherError string

record RefreshTokenResponse =
  access :: string
  refresh :: "string option"
  expires_in :: "int option"
  response_token_type :: "string option"

text \<open>
  What \<open>refreshFn\<close> resolves to: an object with an \<open>access\<close> property (\<open>Tokens\<close>), or
  any other value (\<open>Other\<close>), which the wrapper returns unexamined.
\<close>

datatype 'a refresh_result = Tokens RefreshTokenResponse | Other 'a

text \<open>
  The wrapper's effects are kept in a log: each call of \<open>refreshFn\<close> and each
  \<open>setTimeout\<close> wait with its delay in milliseconds.  \<open>refreshFn\<close> itself acts on a
  state \<open>'s\<close> of the outside world and either throws (\<open>Inl\<close>) or resolves (\<open>Inr\<close>).
\<close>

datatype event = Called | Waited int

type_synonym ('s, 'a) refresh_fn = "'s \<Rightarrow> (thrown + 'a refresh_result) \<times> 's"

definition DEFAULT_MAX_RETRIES :: int where
  "DEFAULT_MAX_RETRIES = 2"

text \<open>The body of the \<open>try\<close>: call \<open>refreshFn\<close>, validate an access token it returned.\<close>

definition refresh_attempt ::
  "decoder \<Rightarrow> ('s, 'a) refresh_fn \<Rightarrow> 's \<Rightarrow> (thrown + 'a refresh_result) \<times> 's" where
  "refresh_attempt jwtDecode refreshFn s =
     (case refreshFn s of
        (Inl e, s') \<Rightarrow> (Inl e, s')
      | (Inr result, s') \<Rightarrow>
          (case result of
             Tokens r \<Rightarrow>
               if access r \<noteq> [] \<and> \<not> isValid (validateTokenFormat jwtDecode (access r))
               then (Inl (TokenError ''Invalid access token from refresh''
                            ''INVALID_REFRESH_RESULT'' None), s')
               else (Inr result, s')
           | Other x \<Rightarrow> (Inr result, s')))"

text \<open>The test in the \<open>catch\<close> under "Don't retry on authentication errors".\<close>

definition is_authentication_error :: "thrown \<Rightarrow> bool" where
  "is_authentication_error e =
     (case e of
        TokenError m c oe \<Rightarrow> c = ''INVALID_CREDENTIALS'' \<or> c = ''INVALID_REFRESH_RESULT''
      | OtherError m \<Rightarrow> False)"

text \<open>
  The \<open>for\<close> loop from \<open>attempt\<close> on.  It ends with \<open>Inr\<close> of the result when an attempt
  returns, and with \<open>Inl lastError\<close> when the loop is left by \<open>break\<close> or by its
  condition.
\<close>

function safeTokenRefresh_loop ::
  "decoder \<Rightarrow> ('s, 'a) refresh_fn \<Rightarrow> int \<Rightarrow> nat \<Rightarrow> thrown option \<Rightarrow> 's \<Rightarrow> event list
   \<Rightarrow> (thrown option + 'a refresh_result) \<times> 's \<times> event list" where
  "safeTokenRefresh_loop jwtDecode refreshFn maxRetries attempt lastError s log =
     (if int attempt \<le> maxRetries then
        (case refresh_attempt jwtDecode refreshFn s of
           (Inr result, s') \<Rightarrow> (Inr result, s', log @ [Called])
         | (Inl e, s') \<Rightarrow>
             if is_authentication_error e then (Inl (Some e), s', log @ [Called])
             else if int attempt < maxRetries then
               safeTokenRefresh_loop jwtDecode refreshFn maxRetries (Suc attempt) (Some e) s'
                 (log @ [Called, Waited (1000 * 2 ^ attempt)])
             else
               safeTokenRefresh_loop jwtDecode refreshFn maxRetries (Suc attempt) (Some e) s'
                 (log @ [Called]))
      else (Inl lastError, s, log))"
  by pat_completeness auto
termination
  by (relation "measure (\<lambda>(jwtDecode, refreshFn, maxRetries, attempt, lastError, s, log).
        nat (maxRetries + 1 - int attempt))") auto

definition safeTokenRefresh ::
  "decoder \<Rightarrow> ('s, 'a) refresh_fn \<Rightarrow> int \<Rightarrow> 's
   \<Rightarrow> (thrown + 'a refresh_result) \<times> 's \<times> event list" where
  "safeTokenRefresh jwtDecode refreshFn maxRetries s =
     (case safeTokenRefresh_loop jwtDecode refreshFn maxRetries 0 None s [] of
        (Inr result, s', log) \<Rightarrow> (Inr result, s', log)
      | (Inl lastError, s', log) \<Rightarrow>
          (case lastError of
             Some (TokenError m c oe) \<Rightarrow> (Inl (TokenError m c oe), s', log)
           | _ \<Rightarrow> (Inl (TokenError ''Token refresh failed after retries'' ''REFRESH_FAILED''
                         lastError), s', log)))"

section \<open>Session callbacks (\<open>lib/auth/auth.config\<close>)\<close>

record User =
  id_u :: "string option"
  username_u :: "string option"
  email_u :: "string option"
  name_u :: "string option"
  firstName_u :: "string option"
  lastName_u :: "string option"
  role_u :: "string option"
  permissions_u :: "string list option"
  accessToken_u :: "string option"
  refreshToken_u :: "string option"

record JWT =
  id_jwt :: "string option"
  username :: "string option"
  email :: "string option"
  name :: "string option"
  firstName :: "string option"
  lastName :: "string option"
  role :: "string option"
  permissions :: "string list option"
  accessToken :: "string option"
  refreshToken :: "string option"
  accessTokenExpires :: "int option"
  error :: "string option"

record Session =
  user :: "User option"
  session_accessToken :: "string option"
  session_refreshToken :: "string option"

text \<open>The module's own copies of \<open>getTokenExpiry\<close> and \<open>isTokenExpired\<close>.\<close>

definition authConfig_getTokenExpiry :: "decoder \<Rightarrow> string \<Rightarrow> int option" where
  "authConfig_getTokenExpiry jwtDecode token =
     (case jwtDecode token of
        None \<Rightarrow> None
      | Some decoded \<Rightarrow> (if truthy_num (exp decoded) then Some (the (exp decoded) * 1000) else None))"

definition authConfig_isTokenExpired :: "decoder \<Rightarrow> int \<Rightarrow> string \<Rightarrow> int \<Rightarrow> bool" where
  "authConfig_isTokenExpired jwtDecode now token bufferMs =
     (let expiry = authConfig_getTokenExpiry jwtDecode token in
      if \<not> truthy_num expiry then True
      else now \<ge> the expiry - bufferMs)"

text \<open>
  \<open>refreshAccessToken\<close>, in its mock mode: the \<open>try\<close> only copies the token with a new
  expiry, one hour after the clock reading \<open>now\<close>, and clears the error; nothing in it
  can throw, so the \<open>catch\<close> is never entered.
\<close>

definition refreshAccessToken :: "int \<Rightarrow> JWT \<Rightarrow> JWT option" where
  "refreshAccessToken now token =
     Some (token\<lparr>accessTokenExpires := Some (now + 60 * 60 * 1000), error := None\<rparr>)"

text \<open>The "Initial sign in" block of the \<open>jwt\<close> callback, for a present \<open>user\<close>.\<close>

definition initial_sign_in :: "decoder \<Rightarrow> int \<Rightarrow> JWT \<Rightarrow> User \<Rightarrow> JWT" where
  "initial_sign_in jwtDecode now token u =
     (let tokenExpiry =
            (if truthy_str (accessToken_u u)
             then authConfig_getTokenExpiry jwtDecode (the (accessToken_u u)) else None)
      in token\<lparr>id_jwt := id_u u, username := username_u u, email := email_u u,
               name := name_u u, firstName := firstName_u u, lastName := lastName_u u,
               role := role_u u, permissions := permissions_u u,
               accessToken := accessToken_u u, refreshToken := refreshToken_u u,
               accessTokenExpires :=
                 Some (if truthy_num tokenExpiry then the tokenExpiry
                       else now + 60 * 60 * 1000)\<rparr>)"

text \<open>
  The \<open>jwt\<close> callback, over the function it calls to refresh (\<open>refreshFn\<close>, returning
  \<open>None\<close> for \<open>null\<close>).  \<open>now_signin\<close> and \<open>now_check\<close> are the readings of \<open>Date.now()\<close>
  in the sign-in block and in \<open>isTokenExpired\<close>.
\<close>

definition jwt_with ::
  "decoder \<Rightarrow> (JWT \<Rightarrow> JWT option) \<Rightarrow> int \<Rightarrow> int \<Rightarrow> JWT \<Rightarrow> User option \<Rightarrow> string option
   \<Rightarrow> Session option \<Rightarrow> JWT" where
  "jwt_with jwtDecode refreshFn now_signin now_check token usr trigger session =
     (let token1 = (case usr of
                      Some u \<Rightarrow> initial_sign_in jwtDecode now_signin token u
                    | None \<Rightarrow> token);
          token2 =
            (if trigger = Some ''update'' \<and> session \<noteq> None then
               token1\<lparr>name :=
                 (let n = (case user (the session) of None \<Rightarrow> None | Some su \<Rightarrow> name_u su)
                  in if truthy_str n then n else name token1)\<rparr>
             else token1);
          shouldRefresh =
            (\<not> truthy_str (accessToken token2)
             \<or> authConfig_isTokenExpired jwtDecode now_check (the (accessToken token2))
                  (5 * 60 * 1000))
      in if \<not> shouldRefresh then token2
         else (case refreshFn token2 of
                 None \<Rightarrow> token2\<lparr>error := Some ''RefreshAccessTokenError''\<rparr>
               | Some refreshedToken \<Rightarrow>
                   if truthy_str (error refreshedToken)
                   then token2\<lparr>error := Some ''RefreshAccessTokenError''\<rparr>
                   else refreshedToken))"


text \<open>The \<open>session\<close> callback; \<open>None\<close> is the \<open>null\<close> that invalidates the session.\<close>

definition session_callback :: "Session \<Rightarrow> JWT option \<Rightarrow> Session option" where
  "session_callback session token =
     (case token of
        None \<Rightarrow> None
      | Some t \<Rightarrow>
          if truthy_str (error t) then None
          else (case user session of
                  None \<Rightarrow> Some session
                | Some su \<Rightarrow>
                    Some (session\<lparr>user := Some (su\<lparr>id_u := id_jwt t, username_u := username t,
                                    email_u := email t, name_u := name t,
                                    firstName_u := firstName t, lastName_u := lastName t,
                                    role_u := role t, permissions_u := permissions t\<rparr>),
                                  session_accessToken := accessToken t,
                                  session_refreshToken := refreshToken t\<rparr>)))"

section \<open>Route guard (\<open>proxy.ts\<close>)\<close>

text \<open>
  \<open>ROUTES\<close> and \<open>PUBLIC_ROUTES\<close> as \<open>constants/routes.ts\<close> exports them: the guard
  takes \<open>PUBLIC_ROUTES\<close> from that file and \<open>ROUTES\<close> from \<open>@/constants\<close>, which
  re-exports it.  This object has no \<open>DASHBOARD\<close> property: \<open>ROUTES.DASHBOARD\<close> is
  \<open>undefined\<close> (\<open>None\<close>), and reading \<open>ROOT\<close> of it throws a \<open>TypeError\<close>.  (An object
  \<open>ROUTES\<close> with \<open>DASHBOARD.ROOT = '/dashboard'\<close> is exported by another file, which
  these imports do not reach.)
\<close>

record dashboard_routes =
  ROOT :: string

record routes =
  HOME :: string
  LOGIN :: string
  FORGOT_PASSWORD :: string
  DASHBOARD :: "dashboard_routes option"

definition ROUTES :: routes where
  "ROUTES = \<lparr>HOME = ''/'', LOGIN = ''/login'', FORGOT_PASSWORD = ''/forgot-password'',
             DASHBOARD = None\<rparr>"

definition PUBLIC_ROUTES :: "string list" where
  "PUBLIC_ROUTES = [HOME ROUTES, LOGIN ROUTES, FORGOT_PASSWORD ROUTES]"

definition isPublicRoute :: "string \<Rightarrow> bool" where
  "isPublicRoute pathname =
     list_ex (\<lambda>route. pathname = route \<or> startsWith pathname (route @ ''/'')) PUBLIC_ROUTES"

text \<open>
  The request as the guard reads it: the path, the \<open>returnUrl\<close> query parameter
  (\<open>None\<close> when \<open>searchParams.get\<close> gives \<open>null\<close>), the URL \<open>request.url\<close> and the
  session \<open>request.auth\<close>.
\<close>

record request =
  pathname :: string
  returnUrl :: "string option"
  url :: string
  auth :: "Session option"

text \<open>
  The outcome: \<open>NextResponse.next()\<close>, a redirect to a URL with the query parameters
  the guard set on it, or a \<open>TypeError\<close> thrown.  The platform's \<open>new URL(input, base)\<close>
  is the parameter \<open>newURL\<close> of the guard: the resolved URL, or \<open>None\<close> where the
  constructor throws its \<open>TypeError\<close> (as for an input that does not parse).
\<close>

datatype response = Next | Redirect string "(string \<times> string) list" | ThrowsTypeError

type_synonym url_constructor = "string \<Rightarrow> string \<Rightarrow> string option"

text \<open>\<open>!!request.auth?.user\<close>\<close>

definition isAuthenticated :: "request \<Rightarrow> bool" where
  "isAuthenticated req = (case auth req of None \<Rightarrow> False | Some s \<Rightarrow> user s \<noteq> None)"

text \<open>
  \<open>searchParams.get('returnUrl') || ROUTES.DASHBOARD.ROOT\<close>: the right operand is
  evaluated only for an absent or empty parameter.
\<close>

definition login_redirect_target :: "request \<Rightarrow> string option" where
  "login_redirect_target req =
     (if truthy_str (returnUrl req) then returnUrl req
      else (case DASHBOARD ROUTES of None \<Rightarrow> None | Some d \<Rightarrow> Some (ROOT d)))"

definition middleware :: "url_constructor \<Rightarrow> request \<Rightarrow> response" where
  "middleware newURL req =
     (if isPublicRoute (pathname req) then
        (if pathname req = LOGIN ROUTES \<and> isAuthenticated req then
           (case login_redirect_target req of
              None \<Rightarrow> ThrowsTypeError
            | Some target \<Rightarrow>
                (case newURL target (url req) of
                   None \<Rightarrow> ThrowsTypeError
                 | Some location \<Rightarrow> Redirect location []))
         else Next)
      else if \<not> isAuthenticated req then
        (case newURL (LOGIN ROUTES) (url req) of
           None \<Rightarrow> ThrowsTypeError
         | Some loginUrl \<Rightarrow> Redirect loginUrl [(''returnUrl'', pathname req)])
      else Next)"

section \<open>Login action (\<open>app/(auth)/login/action\<close>)\<close>













section \<open>Properties of the expiry policy\<close>

lemma getTokenInfo_isExpired:
  "isExpired (getTokenInfo jwtDecode now token) =
     (case getTokenExpiry jwtDecode token of None \<Rightarrow> True | Some e \<Rightarrow> now \<ge> e)"
  by (simp add: getTokenInfo_def getTokenExpiry_def truthy_num_def empty_payload_def Let_def
      split: option.splits)

lemma getTokenInfo_willExpireSoon:
  "willExpireSoon (getTokenInfo jwtDecode now token) =
     (case getTokenExpiry jwtDecode token of
        None \<Rightarrow> False
      | Some e \<Rightarrow> now < e \<and> e - now \<le> REFRESH_BUFFER_MS)"
  by (auto simp add: getTokenInfo_def getTokenExpiry_def truthy_num_def empty_payload_def
      Let_def split: option.splits)

lemma getTokenExpiry_decoded:
  "jwtDecode token = Some p \<Longrightarrow> exp p = Some x \<Longrightarrow>
   getTokenExpiry jwtDecode token = (if x = 0 then None else Some (x * 1000))"
  by (simp add: getTokenExpiry_def decodeToken_def truthy_num_def)

lemma getTokenExpiry_undecodable:
  "jwtDecode token = None \<Longrightarrow> getTokenExpiry jwtDecode token = None"
  by (simp add: getTokenExpiry_def decodeToken_def)

lemma shouldRefreshToken_present:
  "token \<noteq> [] \<Longrightarrow>
   shouldRefreshToken jwtDecode now (Some token) =
     (case getTokenExpiry jwtDecode token of
        None \<Rightarrow> True
      | Some e \<Rightarrow> now \<ge> e - REFRESH_BUFFER_MS)"
  by (auto simp add: shouldRefreshToken_def truthy_str_def Let_def getTokenInfo_isExpired
      getTokenInfo_willExpireSoon REFRESH_BUFFER_MS_def split: option.splits)

text \<open>
  The three-part shape of a token is tested by \<open>validateTokenFormat\<close> only;
  \<open>decodeToken\<close> leaves every test of the string to the decoder.
\<close>

lemma validateTokenFormat_wrong_segment_count:
  "length (split_on CHR ''.'' token) \<noteq> 3 \<Longrightarrow>
   \<not> isValid (validateTokenFormat jwtDecode token)"
  by (simp add: validateTokenFormat_def)

text \<open>
  C10.  The two flags computed by \<open>getTokenInfo\<close> are never both set, for any decoder,
  clock reading and token string: a token is expired, or expiring soon, or neither
  (valid), and never two of these at once.
\<close>

theorem getTokenInfo_classification_exclusive:
  "\<not> (isExpired (getTokenInfo jwtDecode now token)
       \<and> willExpireSoon (getTokenInfo jwtDecode now token))"
  by (simp add: getTokenInfo_def Let_def)

theorem getTokenInfo_classification_exclusive_witness:
  "\<not> (isExpired (getTokenInfo
            (\<lambda>t. if t = ''h.p.s'' then Some (empty_payload\<lparr>exp := Some 1000\<rparr>) else None)
            800000 ''h.p.s'')
       \<and> willExpireSoon (getTokenInfo
            (\<lambda>t. if t = ''h.p.s'' then Some (empty_payload\<lparr>exp := Some 1000\<rparr>) else None)
            800000 ''h.p.s''))"
  by (rule getTokenInfo_classification_exclusive)

text \<open>
  C1.  Let the payload of a non-empty token decode to the claim \<open>exp = x\<close>, and let
  \<open>E = x * 1000\<close> be the expiry in milliseconds.  Then \<open>shouldRefreshToken\<close> is true
  exactly when \<open>now \<ge> E - REFRESH_BUFFER_MS\<close>, the buffer being five minutes
  (300000 ms); this is exactly when the token is classified expired (\<open>now \<ge> E\<close>) or
  expiring soon (\<open>now < E\<close> and \<open>E - now \<le> REFRESH_BUFFER_MS\<close>); and it is true
  when the token argument is absent.  The claim \<open>exp = 0\<close> is falsy in JavaScript and
  read as "no expiry": the equivalence then needs the clock not to be before the epoch,
  which \<open>Date.now()\<close> is not.
\<close>

theorem shouldRefreshToken_iff_within_buffer:
  assumes "token \<noteq> []"
    and "jwtDecode token = Some p"
    and "exp p = Some x"
    and "x \<noteq> 0 \<or> 0 \<le> now"
  shows "shouldRefreshToken jwtDecode now (Some token) = (now \<ge> x * 1000 - REFRESH_BUFFER_MS)
       \<and> shouldRefreshToken jwtDecode now (Some token) =
           (isExpired (getTokenInfo jwtDecode now token)
            \<or> willExpireSoon (getTokenInfo jwtDecode now token))
       \<and> (x \<noteq> 0 \<longrightarrow>
            isExpired (getTokenInfo jwtDecode now token) = (now \<ge> x * 1000)
          \<and> willExpireSoon (getTokenInfo jwtDecode now token) =
              (now < x * 1000 \<and> x * 1000 - now \<le> REFRESH_BUFFER_MS))
       \<and> shouldRefreshToken jwtDecode now None
       \<and> REFRESH_BUFFER_MS = 300000"
proof -
  have e: "getTokenExpiry jwtDecode token = (if x = 0 then None else Some (x * 1000))"
    using assms(2,3) by (rule getTokenExpiry_decoded)
  have a: "shouldRefreshToken jwtDecode now (Some token) = (now \<ge> x * 1000 - REFRESH_BUFFER_MS)"
    using assms(1,4) by (auto simp add: shouldRefreshToken_present e REFRESH_BUFFER_MS_def)
  have b: "shouldRefreshToken jwtDecode now (Some token) =
      (isExpired (getTokenInfo jwtDecode now token)
       \<or> willExpireSoon (getTokenInfo jwtDecode now token))"
    using assms(1) by (simp add: shouldRefreshToken_def truthy_str_def Let_def)
  have c: "x \<noteq> 0 \<longrightarrow>
        isExpired (getTokenInfo jwtDecode now token) = (now \<ge> x * 1000)
      \<and> willExpireSoon (getTokenInfo jwtDecode now token) =
          (now < x * 1000 \<and> x * 1000 - now \<le> REFRESH_BUFFER_MS)"
    by (simp add: getTokenInfo_isExpired getTokenInfo_willExpireSoon e)
  have d: "shouldRefreshToken jwtDecode now None"
    by (simp add: shouldRefreshToken_def truthy_str_def)
  have f: "REFRESH_BUFFER_MS = 300000"
    by (simp add: REFRESH_BUFFER_MS_def)
  from a b c d f show ?thesis by blast
qed

text \<open>
  Witness for C1: a decoder that accepts one token, whose \<open>exp\<close> is 1000 s; at
  \<open>now = 700000\<close> ms the token is exactly at the edge of the buffer and is refreshed.
\<close>

theorem shouldRefreshToken_iff_within_buffer_witness:
  "shouldRefreshToken
     (\<lambda>t. if t = ''h.p.s'' then Some (empty_payload\<lparr>exp := Some 1000\<rparr>) else None)
     700000 (Some ''h.p.s'')
   \<and> \<not> shouldRefreshToken
     (\<lambda>t. if t = ''h.p.s'' then Some (empty_payload\<lparr>exp := Some 1000\<rparr>) else None)
     699999 (Some ''h.p.s'')"
proof -
  let ?d = "\<lambda>t. if t = ''h.p.s'' then Some (empty_payload\<lparr>exp := Some 1000\<rparr>) else None"
  let ?p = "empty_payload\<lparr>exp := Some 1000\<rparr>"
  have h1: "''h.p.s'' \<noteq> []" by simp
  have h2: "?d ''h.p.s'' = Some ?p" by simp
  have h3: "exp ?p = Some 1000" by simp
  have h4: "(1000::int) \<noteq> 0 \<or> (0::int) \<le> 700000" by simp
  have h5: "(1000::int) \<noteq> 0 \<or> (0::int) \<le> 699999" by simp
  have a: "shouldRefreshToken ?d 700000 (Some ''h.p.s'') = ((700000::int) \<ge> 1000 * 1000 - REFRESH_BUFFER_MS)"
    using shouldRefreshToken_iff_within_buffer [of "''h.p.s''" ?d ?p 1000 700000, OF h1 h2 h3 h4]
    by blast
  have b: "shouldRefreshToken ?d 699999 (Some ''h.p.s'') = ((699999::int) \<ge> 1000 * 1000 - REFRESH_BUFFER_MS)"
    using shouldRefreshToken_iff_within_buffer [of "''h.p.s''" ?d ?p 1000 699999, OF h1 h2 h3 h5]
    by blast
  show ?thesis unfolding a b by (simp add: REFRESH_BUFFER_MS_def)
qed

lemma jwtDecode_lib_eq:
  "jwtDecode_lib parsePart S =
     (if 2 \<le> length (split_on CHR ''.'' S) then parsePart (split_on CHR ''.'' S ! 1) else None)"
  by (simp add: jwtDecode_lib_def split: list.splits)

lemma decode_failure_fail_closed:
  "jwtDecode S = None \<Longrightarrow>
     decodeToken jwtDecode S = None
   \<and> getTokenExpiry jwtDecode S = None
   \<and> isTokenExpired jwtDecode now S bufferMs
   \<and> isExpired (getTokenInfo jwtDecode now S)
   \<and> shouldRefreshToken jwtDecode now (Some S)"
  by (simp add: decodeToken_def getTokenExpiry_def isTokenExpired_def truthy_num_def
      getTokenInfo_isExpired shouldRefreshToken_def truthy_str_def Let_def)

text \<open>
  C4 (as amended).  Whenever the decoder rejects a token string \<open>S\<close>, \<open>decodeToken\<close>
  returns \<open>null\<close> instead of claims, no expiry is found, the token is classified expired
  and \<open>shouldRefreshToken S\<close> is true; the empty string is refreshed without being
  decoded; and \<open>decodeToken\<close> adds no test of its own to the decoder's.  With the
  decoder of \<open>jwt-decode\<close>, the strings rejected are those with no second dot-separated
  part (the empty string among them) and those whose second part cannot be
  deserialized; a string with at least two parts whose second part deserializes is
  decoded, whatever the number of its parts.  Only \<open>validateTokenFormat\<close> rejects a
  string for having a number of parts other than three.
\<close>

theorem undecodable_token_fail_closed:
  "(jwtDecode S = None \<longrightarrow>
      decodeToken jwtDecode S = None
    \<and> getTokenExpiry jwtDecode S = None
    \<and> isTokenExpired jwtDecode now S bufferMs
    \<and> isExpired (getTokenInfo jwtDecode now S)
    \<and> shouldRefreshToken jwtDecode now (Some S))
   \<and> shouldRefreshToken jwtDecode now (Some [])
   \<and> decodeToken jwtDecode S = jwtDecode S
   \<and> (length (split_on CHR ''.'' S) < 2 \<longrightarrow>
        decodeToken (jwtDecode_lib parsePart) S = None
      \<and> shouldRefreshToken (jwtDecode_lib parsePart) now (Some S))
   \<and> (2 \<le> length (split_on CHR ''.'' S) \<and> parsePart (split_on CHR ''.'' S ! 1) = None \<longrightarrow>
        decodeToken (jwtDecode_lib parsePart) S = None
      \<and> shouldRefreshToken (jwtDecode_lib parsePart) now (Some S))
   \<and> (2 \<le> length (split_on CHR ''.'' S) \<longrightarrow>
        decodeToken (jwtDecode_lib parsePart) S = parsePart (split_on CHR ''.'' S ! 1))
   \<and> (length (split_on CHR ''.'' S) \<noteq> 3 \<longrightarrow>
        \<not> isValid (validateTokenFormat jwtDecode S))"
proof -
  have a: "jwtDecode S = None \<longrightarrow>
      decodeToken jwtDecode S = None
    \<and> getTokenExpiry jwtDecode S = None
    \<and> isTokenExpired jwtDecode now S bufferMs
    \<and> isExpired (getTokenInfo jwtDecode now S)
    \<and> shouldRefreshToken jwtDecode now (Some S)"
    using decode_failure_fail_closed [of jwtDecode S now bufferMs] by blast
  have b: "shouldRefreshToken jwtDecode now (Some [])"
    by (simp add: shouldRefreshToken_def truthy_str_def)
  have c: "decodeToken jwtDecode S = jwtDecode S"
    by (simp add: decodeToken_def split: option.splits)
  have d: "length (split_on CHR ''.'' S) < 2 \<longrightarrow>
        decodeToken (jwtDecode_lib parsePart) S = None
      \<and> shouldRefreshToken (jwtDecode_lib parsePart) now (Some S)"
  proof
    assume "length (split_on CHR ''.'' S) < 2"
    then have "jwtDecode_lib parsePart S = None"
      by (simp add: jwtDecode_lib_eq)
    then show "decodeToken (jwtDecode_lib parsePart) S = None
      \<and> shouldRefreshToken (jwtDecode_lib parsePart) now (Some S)"
      using decode_failure_fail_closed [of "jwtDecode_lib parsePart" S now 0] by blast
  qed
  have e: "2 \<le> length (split_on CHR ''.'' S) \<and> parsePart (split_on CHR ''.'' S ! 1) = None \<longrightarrow>
        decodeToken (jwtDecode_lib parsePart) S = None
      \<and> shouldRefreshToken (jwtDecode_lib parsePart) now (Some S)"
  proof
    assume "2 \<le> length (split_on CHR ''.'' S) \<and> parsePart (split_on CHR ''.'' S ! 1) = None"
    then have "jwtDecode_lib parsePart S = None"
      by (simp add: jwtDecode_lib_eq)
    then show "decodeToken (jwtDecode_lib parsePart) S = None
      \<and> shouldRefreshToken (jwtDecode_lib parsePart) now (Some S)"
      using decode_failure_fail_closed [of "jwtDecode_lib parsePart" S now 0] by blast
  qed
  have f: "2 \<le> length (split_on CHR ''.'' S) \<longrightarrow>
        decodeToken (jwtDecode_lib parsePart) S = parsePart (split_on CHR ''.'' S ! 1)"
    by (simp add: decodeToken_def jwtDecode_lib_eq split: option.splits)
  have g: "length (split_on CHR ''.'' S) \<noteq> 3 \<longrightarrow>
        \<not> isValid (validateTokenFormat jwtDecode S)"
    by (simp add: validateTokenFormat_def)
  from a b c d e f g show ?thesis by blast
qed

text \<open>
  Witness for C4: a string without a dot, and a three-part string whose payload does
  not deserialize, are both rejected and refreshed.
\<close>

theorem undecodable_token_fail_closed_witness:
  "decodeToken
     (jwtDecode_lib (\<lambda>p. if p = ''p'' then Some (empty_payload\<lparr>exp := Some 1000\<rparr>) else None))
     ''not-a-token'' = None
   \<and> shouldRefreshToken
     (jwtDecode_lib (\<lambda>p. if p = ''p'' then Some (empty_payload\<lparr>exp := Some 1000\<rparr>) else None))
     0 (Some ''not-a-token'')
   \<and> decodeToken
     (jwtDecode_lib (\<lambda>p. if p = ''p'' then Some (empty_payload\<lparr>exp := Some 1000\<rparr>) else None))
     ''h.x.s'' = None
   \<and> shouldRefreshToken
     (jwtDecode_lib (\<lambda>p. if p = ''p'' then Some (empty_payload\<lparr>exp := Some 1000\<rparr>) else None))
     0 (Some ''h.x.s'')"
proof -
  let ?pp = "\<lambda>p. if p = ''p'' then Some (empty_payload\<lparr>exp := Some 1000\<rparr>) else None"
  have h1: "length (split_on CHR ''.'' ''not-a-token'') < 2" by simp
  have h2: "2 \<le> length (split_on CHR ''.'' ''h.x.s'') \<and> ?pp (split_on CHR ''.'' ''h.x.s'' ! 1) = None"
    by simp
  have a: "decodeToken (jwtDecode_lib ?pp) ''not-a-token'' = None
      \<and> shouldRefreshToken (jwtDecode_lib ?pp) 0 (Some ''not-a-token'')"
    using undecodable_token_fail_closed
      [where S = "''not-a-token''" and parsePart = ?pp and now = 0] h1 by blast
  have b: "decodeToken (jwtDecode_lib ?pp) ''h.x.s'' = None
      \<and> shouldRefreshToken (jwtDecode_lib ?pp) 0 (Some ''h.x.s'')"
    using undecodable_token_fail_closed
      [where S = "''h.x.s''" and parsePart = ?pp and now = 0] h2 by blast
  from a b show ?thesis by blast
qed

text \<open>
  The claim C4 as first stated fails for a wrong number of parts: the two-part string
  \<open>h.p\<close>, whose second part deserializes to a payload expiring at 1000 s, is decoded
  to that payload and, at time 0, is not refreshed.
\<close>

theorem two_segment_token_is_decoded:
  "length (split_on CHR ''.'' ''h.p'') = 2
   \<and> decodeToken
     (jwtDecode_lib (\<lambda>p. if p = ''p'' then Some (empty_payload\<lparr>exp := Some 1000\<rparr>) else None))
     ''h.p'' = Some (empty_payload\<lparr>exp := Some 1000\<rparr>)
   \<and> \<not> shouldRefreshToken
     (jwtDecode_lib (\<lambda>p. if p = ''p'' then Some (empty_payload\<lparr>exp := Some 1000\<rparr>) else None))
     0 (Some ''h.p'')"
  by (simp add: decodeToken_def jwtDecode_lib_def shouldRefreshToken_def truthy_str_def
      getTokenInfo_def truthy_num_def REFRESH_BUFFER_MS_def Let_def)

section \<open>Properties of the refresh wrapper\<close>

lemma refresh_attempt_throws:
  "fst (refreshFn s) = Inl e \<Longrightarrow>
   refresh_attempt jwtDecode refreshFn s = (Inl e, snd (refreshFn s))"
  by (cases "refreshFn s") (simp add: refresh_attempt_def)

lemma refresh_attempt_invalid_access:
  "fst (refreshFn s) = Inr (Tokens r) \<Longrightarrow> access r \<noteq> [] \<Longrightarrow>
   \<not> isValid (validateTokenFormat jwtDecode (access r)) \<Longrightarrow>
   refresh_attempt jwtDecode refreshFn s =
     (Inl (TokenError ''Invalid access token from refresh'' ''INVALID_REFRESH_RESULT'' None),
      snd (refreshFn s))"
  by (cases "refreshFn s") (simp add: refresh_attempt_def)

lemma loop_exit:
  "maxRetries < int attempt \<Longrightarrow>
   safeTokenRefresh_loop jwtDecode refreshFn maxRetries attempt lastError s log =
     (Inl lastError, s, log)"
  by (subst safeTokenRefresh_loop.simps) simp

lemma loop_no_retry:
  "refresh_attempt jwtDecode refreshFn s = (Inl e, s') \<Longrightarrow> is_authentication_error e \<Longrightarrow>
   int attempt \<le> maxRetries \<Longrightarrow>
   safeTokenRefresh_loop jwtDecode refreshFn maxRetries attempt lastError s log =
     (Inl (Some e), s', log @ [Called])"
  by (subst safeTokenRefresh_loop.simps) simp

lemma loop_retry:
  "refresh_attempt jwtDecode refreshFn s = (Inl e, s') \<Longrightarrow> \<not> is_authentication_error e \<Longrightarrow>
   int attempt < maxRetries \<Longrightarrow>
   safeTokenRefresh_loop jwtDecode refreshFn maxRetries attempt lastError s log =
     safeTokenRefresh_loop jwtDecode refreshFn maxRetries (Suc attempt) (Some e) s'
       (log @ [Called, Waited (1000 * 2 ^ attempt)])"
  by (subst safeTokenRefresh_loop.simps) simp

lemma loop_last_attempt:
  "refresh_attempt jwtDecode refreshFn s = (Inl e, s') \<Longrightarrow> \<not> is_authentication_error e \<Longrightarrow>
   int attempt = maxRetries \<Longrightarrow>
   safeTokenRefresh_loop jwtDecode refreshFn maxRetries attempt lastError s log =
     (Inl (Some e), s', log @ [Called])"
  by (subst safeTokenRefresh_loop.simps) (simp add: loop_exit)

lemma loop_returns:
  "refresh_attempt jwtDecode refreshFn s = (Inr result, s') \<Longrightarrow> int attempt \<le> maxRetries \<Longrightarrow>
   safeTokenRefresh_loop jwtDecode refreshFn maxRetries attempt lastError s log =
     (Inr result, s', log @ [Called])"
  by (subst safeTokenRefresh_loop.simps) simp

text \<open>The error \<open>safeTokenRefresh\<close> throws after the loop, from the last error caught.\<close>

lemma safeTokenRefresh_throws:
  "safeTokenRefresh_loop jwtDecode refreshFn maxRetries 0 None s [] = (Inl (Some e), s', log) \<Longrightarrow>
   safeTokenRefresh jwtDecode refreshFn maxRetries s =
     (Inl (case e of
             TokenError m c oe \<Rightarrow> e
           | OtherError m \<Rightarrow>
               TokenError ''Token refresh failed after retries'' ''REFRESH_FAILED'' (Some e)),
      s', log)"
  by (cases e) (simp_all add: safeTokenRefresh_def)

lemma three_transient_failures:
  assumes f1: "refreshFn s0 = (Inl e1, s1)" and t1: "\<not> is_authentication_error e1"
    and f2: "refreshFn s1 = (Inl e2, s2)" and t2: "\<not> is_authentication_error e2"
    and f3: "refreshFn s2 = (Inl e3, s3)" and t3: "\<not> is_authentication_error e3"
  shows "safeTokenRefresh_loop jwtDecode refreshFn 2 0 None s0 [] =
           (Inl (Some e3), s3, [Called, Waited 1000, Called, Waited 2000, Called])"
proof -
  have r1: "refresh_attempt jwtDecode refreshFn s0 = (Inl e1, s1)"
    using f1 by (simp add: refresh_attempt_def)
  have r2: "refresh_attempt jwtDecode refreshFn s1 = (Inl e2, s2)"
    using f2 by (simp add: refresh_attempt_def)
  have r3: "refresh_attempt jwtDecode refreshFn s2 = (Inl e3, s3)"
    using f3 by (simp add: refresh_attempt_def)
  have a1: "safeTokenRefresh_loop jwtDecode refreshFn 2 0 None s0 [] =
      safeTokenRefresh_loop jwtDecode refreshFn 2 (Suc 0) (Some e1) s1 [Called, Waited 1000]"
    using loop_retry [OF r1 t1, of 0 2 None "[]"] by simp
  have a2: "safeTokenRefresh_loop jwtDecode refreshFn 2 (Suc 0) (Some e1) s1 [Called, Waited 1000] =
      safeTokenRefresh_loop jwtDecode refreshFn 2 (Suc (Suc 0)) (Some e2) s2
        [Called, Waited 1000, Called, Waited 2000]"
    using loop_retry [OF r2 t2, of "Suc 0" 2
        "Some e1" "[Called, Waited 1000]"] by simp
  have a3: "safeTokenRefresh_loop jwtDecode refreshFn 2 (Suc (Suc 0)) (Some e2) s2
        [Called, Waited 1000, Called, Waited 2000] =
      (Inl (Some e3), s3, [Called, Waited 1000, Called, Waited 2000, Called])"
    using loop_last_attempt [OF r3 t3, of "Suc (Suc 0)" 2
        "Some e2" "[Called, Waited 1000, Called, Waited 2000]"] by simp
  from a1 a2 a3 show ?thesis by simp
qed

text \<open>
  C2 (as amended).  If every call of \<open>refreshFn\<close> throws an error that is not of the
  credential class, \<open>safeTokenRefresh\<close> with the default budget of 2 retries calls
  \<open>refreshFn\<close> exactly three times, waits 1000 ms after the first failure and 2000 ms
  after the second, does not wait after the third, and then throws: the third error
  itself when it is a \<open>TokenError\<close>, and otherwise a \<open>TokenError\<close> with code
  \<open>REFRESH_FAILED\<close> whose \<open>originalError\<close> is the third error.
\<close>

theorem safeTokenRefresh_transient_exhausts_retries:
  assumes "\<forall>s. \<exists>e. fst (refreshFn s) = Inl e \<and> \<not> is_authentication_error e"
  shows "\<exists>e3. fst (refreshFn (snd (refreshFn (snd (refreshFn s0))))) = Inl e3
     \<and> safeTokenRefresh jwtDecode refreshFn DEFAULT_MAX_RETRIES s0 =
         (Inl (case e3 of
                 TokenError m c oe \<Rightarrow> e3
               | OtherError m \<Rightarrow>
                   TokenError ''Token refresh failed after retries'' ''REFRESH_FAILED''
                     (Some e3)),
          snd (refreshFn (snd (refreshFn (snd (refreshFn s0))))),
          [Called, Waited 1000, Called, Waited 2000, Called])"
proof -
  obtain e1 where f1: "refreshFn s0 = (Inl e1, snd (refreshFn s0))"
    and t1: "\<not> is_authentication_error e1"
    using assms by (metis prod.collapse)
  let ?s1 = "snd (refreshFn s0)"
  obtain e2 where f2: "refreshFn ?s1 = (Inl e2, snd (refreshFn ?s1))"
    and t2: "\<not> is_authentication_error e2"
    using assms by (metis prod.collapse)
  let ?s2 = "snd (refreshFn ?s1)"
  obtain e3 where f3: "refreshFn ?s2 = (Inl e3, snd (refreshFn ?s2))"
    and t3: "\<not> is_authentication_error e3"
    using assms by (metis prod.collapse)
  have l: "safeTokenRefresh_loop jwtDecode refreshFn 2 0 None s0 [] =
      (Inl (Some e3), snd (refreshFn ?s2), [Called, Waited 1000, Called, Waited 2000, Called])"
    using f1 t1 f2 t2 f3 t3 by (rule three_transient_failures)
  have "fst (refreshFn ?s2) = Inl e3"
    using f3 by (metis fst_conv)
  moreover have "safeTokenRefresh jwtDecode refreshFn DEFAULT_MAX_RETRIES s0 =
      (Inl (case e3 of
              TokenError m c oe \<Rightarrow> e3
            | OtherError m \<Rightarrow>
                TokenError ''Token refresh failed after retries'' ''REFRESH_FAILED'' (Some e3)),
       snd (refreshFn ?s2), [Called, Waited 1000, Called, Waited 2000, Called])"
    unfolding DEFAULT_MAX_RETRIES_def using l by (rule safeTokenRefresh_throws)
  ultimately show ?thesis by blast
qed

text \<open>
  Witness for C2: a refresh function that counts its calls in the state and always
  throws a plain network error.
\<close>

theorem safeTokenRefresh_transient_exhausts_retries_witness:
  "safeTokenRefresh (\<lambda>t. None) (\<lambda>n::nat. (Inl (OtherError ''fetch failed''), Suc n))
     DEFAULT_MAX_RETRIES 0 =
   ((Inl (TokenError ''Token refresh failed after retries'' ''REFRESH_FAILED''
           (Some (OtherError ''fetch failed''))) :: thrown + unit refresh_result),
    3, [Called, Waited 1000, Called, Waited 2000, Called])"
proof -
  let ?f = "\<lambda>n::nat. ((Inl (OtherError ''fetch failed'') :: thrown + unit refresh_result), Suc n)"
  have h: "\<forall>s. \<exists>e. fst (?f s) = Inl e \<and> \<not> is_authentication_error e"
    by (simp add: is_authentication_error_def)
  show ?thesis
    using safeTokenRefresh_transient_exhausts_retries
      [where refreshFn = ?f and jwtDecode = "\<lambda>t. None" and ?s0.0 = 0, OF h]
    by (simp add: numeral_3_eq_3)
qed

text \<open>
  The claim C2 as first stated fails: a refresh function that always throws a
  \<open>TokenError\<close> with a code outside the credential class is retried like any transient
  error, but the error thrown at the end is that \<open>TokenError\<close>, with its own code, and
  not a \<open>REFRESH_FAILED\<close> error.
\<close>

theorem safeTokenRefresh_rethrows_TokenError:
  "\<not> is_authentication_error (TokenError ''Request timed out'' ''NETWORK_ERROR'' None)
   \<and> safeTokenRefresh (\<lambda>t. None)
       (\<lambda>s::unit. (Inl (TokenError ''Request timed out'' ''NETWORK_ERROR'' None), s))
       DEFAULT_MAX_RETRIES () =
     ((Inl (TokenError ''Request timed out'' ''NETWORK_ERROR'' None)
        :: thrown + unit refresh_result),
      (), [Called, Waited 1000, Called, Waited 2000, Called])"
proof -
  let ?e = "TokenError ''Request timed out'' ''NETWORK_ERROR'' None"
  let ?f = "\<lambda>s::unit. ((Inl ?e :: thrown + unit refresh_result), s)"
  have t: "\<not> is_authentication_error ?e"
    by (simp add: is_authentication_error_def)
  have f: "?f () = (Inl ?e, ())" by simp
  have l: "safeTokenRefresh_loop (\<lambda>t. None) ?f 2 0 None () [] =
      (Inl (Some ?e), (), [Called, Waited 1000, Called, Waited 2000, Called])"
    using f t f t f t by (rule three_transient_failures)
  have "safeTokenRefresh (\<lambda>t. None) ?f DEFAULT_MAX_RETRIES () =
      (Inl ?e, (), [Called, Waited 1000, Called, Waited 2000, Called])"
    unfolding DEFAULT_MAX_RETRIES_def using safeTokenRefresh_throws [OF l] by simp
  with t show ?thesis by simp
qed

text \<open>
  C3 (as amended).  With a retry budget that allows at least the first attempt, a first
  attempt that throws a credential-class error (a \<open>TokenError\<close> with code
  \<open>INVALID_CREDENTIALS\<close> or \<open>INVALID_REFRESH_RESULT\<close>) ends the wrapper at once: one call
  of \<open>refreshFn\<close>, no wait, and that error thrown.  A first attempt that returns an
  object whose non-empty \<open>access\<close> token fails \<open>validateTokenFormat\<close> is turned into
  such an error, with code \<open>INVALID_REFRESH_RESULT\<close>, and ends the wrapper the same
  way.  An object whose \<open>access\<close> token is empty is not validated: it is returned as
  the successful result of that one call, although \<open>validateTokenFormat\<close> rejects the
  empty token.
\<close>

theorem safeTokenRefresh_credential_error_not_retried:
  assumes "0 \<le> maxRetries"
  shows "(fst (refreshFn s) = Inl e \<and> is_authentication_error e \<longrightarrow>
            safeTokenRefresh jwtDecode refreshFn maxRetries s =
              (Inl e, snd (refreshFn s), [Called]))
       \<and> (fst (refreshFn s) = Inr (Tokens r) \<and> access r \<noteq> []
            \<and> \<not> isValid (validateTokenFormat jwtDecode (access r)) \<longrightarrow>
            is_authentication_error
              (TokenError ''Invalid access token from refresh'' ''INVALID_REFRESH_RESULT'' None)
          \<and> safeTokenRefresh jwtDecode refreshFn maxRetries s =
              (Inl (TokenError ''Invalid access token from refresh''
                      ''INVALID_REFRESH_RESULT'' None),
               snd (refreshFn s), [Called]))
       \<and> (fst (refreshFn s) = Inr (Tokens r) \<and> access r = [] \<longrightarrow>
            \<not> isValid (validateTokenFormat jwtDecode (access r))
          \<and> safeTokenRefresh jwtDecode refreshFn maxRetries s =
              (Inr (Tokens r), snd (refreshFn s), [Called]))"
proof (intro conjI impI)
  assume a: "fst (refreshFn s) = Inl e \<and> is_authentication_error e"
  then have r: "refresh_attempt jwtDecode refreshFn s = (Inl e, snd (refreshFn s))"
    by (simp add: refresh_attempt_throws)
  have l: "safeTokenRefresh_loop jwtDecode refreshFn maxRetries 0 None s [] =
      (Inl (Some e), snd (refreshFn s), [] @ [Called])"
    using r a assms by (intro loop_no_retry) simp_all
  obtain m c oe where e: "e = TokenError m c oe"
    using a by (cases e) (simp_all add: is_authentication_error_def)
  show "safeTokenRefresh jwtDecode refreshFn maxRetries s = (Inl e, snd (refreshFn s), [Called])"
    using safeTokenRefresh_throws [of jwtDecode refreshFn maxRetries s e] l by (simp add: e)
next
  assume a: "fst (refreshFn s) = Inr (Tokens r) \<and> access r \<noteq> []
      \<and> \<not> isValid (validateTokenFormat jwtDecode (access r))"
  let ?e = "TokenError ''Invalid access token from refresh'' ''INVALID_REFRESH_RESULT'' None"
  show t: "is_authentication_error ?e"
    by (simp add: is_authentication_error_def)
  have r: "refresh_attempt jwtDecode refreshFn s = (Inl ?e, snd (refreshFn s))"
    using a by (simp add: refresh_attempt_invalid_access)
  have l: "safeTokenRefresh_loop jwtDecode refreshFn maxRetries 0 None s [] =
      (Inl (Some ?e), snd (refreshFn s), [] @ [Called])"
    using r t assms by (intro loop_no_retry) simp_all
  show "safeTokenRefresh jwtDecode refreshFn maxRetries s = (Inl ?e, snd (refreshFn s), [Called])"
    using safeTokenRefresh_throws [of jwtDecode refreshFn maxRetries s ?e] l by simp
next
  assume a: "fst (refreshFn s) = Inr (Tokens r) \<and> access r = []"
  show "\<not> isValid (validateTokenFormat jwtDecode (access r))"
    using a by (simp add: validateTokenFormat_def)
  have r: "refresh_attempt jwtDecode refreshFn s = (Inr (Tokens r), snd (refreshFn s))"
    using a by (cases "refreshFn s") (simp add: refresh_attempt_def)
  have l: "safeTokenRefresh_loop jwtDecode refreshFn maxRetries 0 None s [] =
      (Inr (Tokens r), snd (refreshFn s), [] @ [Called])"
    using r assms by (intro loop_returns) simp_all
  show "safeTokenRefresh jwtDecode refreshFn maxRetries s =
      (Inr (Tokens r), snd (refreshFn s), [Called])"
    using l by (simp add: safeTokenRefresh_def)
qed

text \<open>
  Witness for C3: a rejected refresh token, and a response whose access token is not
  a three-part token; each with the default budget, each counted once in the state.
\<close>

theorem safeTokenRefresh_credential_error_not_retried_witness:
  "safeTokenRefresh (\<lambda>t. None)
     (\<lambda>n::nat. (Inl (TokenError ''Refresh token expired'' ''INVALID_CREDENTIALS'' None), Suc n))
     2 0 =
   ((Inl (TokenError ''Refresh token expired'' ''INVALID_CREDENTIALS'' None)
      :: thrown + unit refresh_result), 1, [Called])
   \<and> safeTokenRefresh (\<lambda>t. None)
     (\<lambda>n::nat. (Inr (Tokens \<lparr>access = ''garbage'', refresh = None, expires_in = None,
                              response_token_type = None\<rparr>), Suc n))
     2 0 =
   ((Inl (TokenError ''Invalid access token from refresh'' ''INVALID_REFRESH_RESULT'' None)
      :: thrown + unit refresh_result), 1, [Called])"
proof -
  let ?e = "TokenError ''Refresh token expired'' ''INVALID_CREDENTIALS'' None"
  let ?f = "\<lambda>n::nat. ((Inl ?e :: thrown + unit refresh_result), Suc n)"
  let ?r = "\<lparr>access = ''garbage'', refresh = None, expires_in = None,
             response_token_type = None\<rparr>"
  let ?g = "\<lambda>n::nat. ((Inr (Tokens ?r) :: thrown + unit refresh_result), Suc n)"
  have b: "(0::int) \<le> 2" by simp
  have h1: "fst (?f 0) = Inl ?e \<and> is_authentication_error ?e"
    by (simp add: is_authentication_error_def)
  have h2: "fst (?g 0) = Inr (Tokens ?r) \<and> access ?r \<noteq> []
      \<and> \<not> isValid (validateTokenFormat (\<lambda>t. None) (access ?r))"
    by (simp add: validateTokenFormat_def)
  have c1: "safeTokenRefresh (\<lambda>t. None) ?f 2 0 = (Inl ?e, 1, [Called])"
    using safeTokenRefresh_credential_error_not_retried
      [OF b, where refreshFn = ?f and s = 0 and e = ?e and jwtDecode = "\<lambda>t. None"] h1
    by simp
  have c2: "safeTokenRefresh (\<lambda>t. None) ?g 2 0 =
      (Inl (TokenError ''Invalid access token from refresh'' ''INVALID_REFRESH_RESULT'' None),
       1, [Called])"
    using safeTokenRefresh_credential_error_not_retried
      [OF b, where refreshFn = ?g and s = 0 and r = ?r and jwtDecode = "\<lambda>t. None"] h2
    by simp
  from c1 c2 show ?thesis by simp
qed

text \<open>
  The claim C3 as first stated fails for an empty access token: a refresh that resolves
  to an object with \<open>access = ''\<close> has an access token that \<open>validateTokenFormat\<close>
  rejects, and yet the wrapper returns the object as a success.
\<close>

theorem safeTokenRefresh_accepts_empty_access:
  "\<not> isValid (validateTokenFormat (\<lambda>t. None) [])
   \<and> safeTokenRefresh (\<lambda>t. None)
       (\<lambda>n::nat. (Inr (Tokens \<lparr>access = [], refresh = None, expires_in = None,
                                response_token_type = None\<rparr>), Suc n))
       2 0 =
     ((Inr (Tokens \<lparr>access = [], refresh = None, expires_in = None,
                     response_token_type = None\<rparr>) :: thrown + unit refresh_result),
      1, [Called])"
proof -
  let ?r = "\<lparr>access = [], refresh = None, expires_in = None, response_token_type = None\<rparr>"
  let ?g = "\<lambda>n::nat. ((Inr (Tokens ?r) :: thrown + unit refresh_result), Suc n)"
  have v: "\<not> isValid (validateTokenFormat (\<lambda>t. None) [])"
    by (simp add: validateTokenFormat_def)
  have r: "refresh_attempt (\<lambda>t. None) ?g 0 = (Inr (Tokens ?r), Suc 0)"
    by (simp add: refresh_attempt_def)
  have l: "safeTokenRefresh_loop (\<lambda>t. None) ?g 2 0 None 0 [] =
      (Inr (Tokens ?r), Suc 0, [] @ [Called])"
    using r by (intro loop_returns) simp_all
  have "safeTokenRefresh (\<lambda>t. None) ?g 2 0 = (Inr (Tokens ?r), 1, [Called])"
    using l by (simp add: safeTokenRefresh_def)
  with v show ?thesis by simp
qed

section \<open>Properties of the session callbacks\<close>

lemma authConfig_getTokenExpiry_decoded:
  "jwtDecode a = Some p \<Longrightarrow> exp p = Some x \<Longrightarrow> x \<noteq> 0 \<Longrightarrow>
   authConfig_getTokenExpiry jwtDecode a = Some (x * 1000)"
  by (simp add: authConfig_getTokenExpiry_def truthy_num_def)




text \<open>
  The branch of the \<open>jwt\<close> callback for a failed refresh, over any function it could
  call to refresh: the token is kept and only \<open>error\<close> changes, to the fixed tag.
\<close>

lemma jwt_with_failed_refresh:
  assumes "\<not> truthy_str (accessToken token)
           \<or> authConfig_isTokenExpired jwtDecode now_check (the (accessToken token))
                (5 * 60 * 1000)"
    and "refreshFn token = None \<or> (\<exists>rt. refreshFn token = Some rt \<and> truthy_str (error rt))"
    and "\<not> (trigger = Some ''update'' \<and> session \<noteq> None)"
  shows "jwt_with jwtDecode refreshFn now_signin now_check token None trigger session =
           token\<lparr>error := Some ''RefreshAccessTokenError''\<rparr>"
  using assms by (auto simp add: jwt_with_def Let_def)

lemma refreshAccessToken_never_fails:
  "refreshAccessToken now token =
     Some (token\<lparr>accessTokenExpires := Some (now + 3600000), error := None\<rparr>)
   \<and> \<not> truthy_str (error (the (refreshAccessToken now token)))"
  by (simp add: refreshAccessToken_def truthy_str_def)







section \<open>Properties of the route guard\<close>

lemma isPublicRoute_eq:
  "isPublicRoute p =
     (p = ''/'' \<or> startsWith p ''//'' \<or> p = ''/login'' \<or> startsWith p ''/login/''
      \<or> p = ''/forgot-password'' \<or> startsWith p ''/forgot-password/'')"
  by (simp add: isPublicRoute_def PUBLIC_ROUTES_def ROUTES_def)

lemma isAuthenticated_eq:
  "isAuthenticated req = (\<exists>s u. auth req = Some s \<and> user s = Some u)"
  by (auto simp add: isAuthenticated_def split: option.splits)

text \<open>
  The decisions of the guard, in the order of the rules, with the session test written
  out (\<open>request.auth\<close> holds a session with a user).  On the login path a signed-in user
  is redirected to a non-empty \<open>returnUrl\<close> that \<open>new URL\<close> accepts; without one the
  guard throws, since \<open>ROUTES\<close> has no \<open>DASHBOARD\<close>.
\<close>

lemma middleware_rules:
  "middleware newURL req =
     (if pathname req = ''/login'' \<and> (\<exists>s u. auth req = Some s \<and> user s = Some u) then
        (if truthy_str (returnUrl req) then
           (case newURL (the (returnUrl req)) (url req) of
              None \<Rightarrow> ThrowsTypeError
            | Some location \<Rightarrow> Redirect location [])
         else ThrowsTypeError)
      else if isPublicRoute (pathname req) then Next
      else if \<not> (\<exists>s u. auth req = Some s \<and> user s = Some u) then
        (case newURL ''/login'' (url req) of
           None \<Rightarrow> ThrowsTypeError
         | Some loginUrl \<Rightarrow> Redirect loginUrl [(''returnUrl'', pathname req)])
      else Next)"
proof -
  have l: "isPublicRoute ''/login''"
    by (simp add: isPublicRoute_eq)
  have t: "login_redirect_target req =
      (if truthy_str (returnUrl req) then returnUrl req else None)"
    by (simp add: login_redirect_target_def ROUTES_def)
  show ?thesis
    using l
    by (auto simp add: middleware_def t isAuthenticated_eq ROUTES_def truthy_str_def
        split: option.splits)
qed

text \<open>
  C6, at the input where the guard departs from it.  A signed-in user who requests
  \<open>/login\<close> without a \<open>returnUrl\<close> parameter is to be redirected to the home or
  dashboard path; the guard evaluates \<open>ROUTES.DASHBOARD.ROOT\<close> on a \<open>ROUTES\<close> object
  without \<open>DASHBOARD\<close> and throws a \<open>TypeError\<close> instead, whatever \<open>new URL\<close> does.
\<close>

theorem middleware_login_without_returnUrl_throws:
  "middleware newURL
     \<lparr>pathname = ''/login'', returnUrl = None, url = ''https://admin.example.com/login'',
      auth = Some \<lparr>user = Some \<lparr>id_u = Some ''admin'', username_u = Some ''admin'',
                                email_u = None, name_u = Some ''Admin'', firstName_u = None,
                                lastName_u = None, role_u = Some ''admin'',
                                permissions_u = Some [], accessToken_u = None,
                                refreshToken_u = None\<rparr>,
                  session_accessToken = Some ''h.p.s'',
                  session_refreshToken = Some ''r.r.r''\<rparr>\<rparr> =
   ThrowsTypeError"
  by (simp add: middleware_rules truthy_str_def)

section \<open>Properties of the login action\<close>







end
